theory Spec2Isabelle
  imports Complex_Main
begin

section \<open>ConfigManager.get: the cached configuration fetch\<close>

text \<open>
  The source is the 40-line browser-extension helper \<^verbatim>\<open>window.ConfigManager\<close>.
  Its single method \<^verbatim>\<open>get()\<close> reads two keys of \<^verbatim>\<open>chrome.storage.local\<close>, samples
  \<^verbatim>\<open>Date.now()\<close>, and either answers from the cache or fetches the configuration from
  GitHub, writes it back and answers with it; a \<^verbatim>\<open>catch\<close> around all of this re-reads
  the cached payload.

  The method is a sequence of awaited calls on three collaborators (store, network,
  clock). The model threads a \<open>world\<close> through them: the store's contents, the wall
  clock, and the log of the calls made so far. What the collaborators answer during one
  call of \<^verbatim>\<open>get()\<close> is the input \<open>env\<close>. A thrown JavaScript exception is the \<open>Inl\<close>
  of a sum; \<^verbatim>\<open>undefined\<close> is \<open>None\<close>.
\<close>

subsection \<open>Values\<close>

text \<open>
  The values \<^verbatim>\<open>chrome.storage.local\<close> holds and \<^verbatim>\<open>response.json()\<close> produces.
  A JavaScript number is a double; the model takes the real number it denotes, which is
  exact for the integer millisecond counts \<^verbatim>\<open>Date.now()\<close> returns.
\<close>

datatype jsval =
    JNull
  | JBool bool
  | JNum real
  | JStr string
  | JArr "jsval list"
  | JObj "(string \<times> jsval) list"

datatype js_error =
    NetworkError
  | HttpError nat
  | SyntaxError
  | TypeError
  | StorageError

text \<open>JavaScript's truthiness, as \<^verbatim>\<open>&&\<close> tests it; \<open>None\<close> is \<^verbatim>\<open>undefined\<close>.\<close>

fun truthy :: "jsval option \<Rightarrow> bool" where
  "truthy None = False"
| "truthy (Some JNull) = False"
| "truthy (Some (JBool b)) = b"
| "truthy (Some (JNum n)) = (n \<noteq> 0)"
| "truthy (Some (JStr s)) = (s \<noteq> [])"
| "truthy (Some (JArr xs)) = True"
| "truthy (Some (JObj kvs)) = True"

subsection \<open>Constants (lines 1-4)\<close>

definition GITHUB_PROMPTS_URL :: string where
  "GITHUB_PROMPTS_URL =
     ''https://raw.githubusercontent.com/glidea/banana-prompt-quicker/main/config.json''"

definition CACHE_KEY :: string where
  "CACHE_KEY = ''config_cache''"

definition CACHE_TIMESTAMP_KEY :: string where
  "CACHE_TIMESTAMP_KEY = ''config_cache_time''"

definition CACHE_DURATION :: real where
  "CACHE_DURATION = 2 * 60 * 1000"

subsection \<open>The world and the collaborators\<close>

datatype event =
    StorageGet "string list"
  | DateNow
  | Fetch string
  | ResponseJson
  | StorageSet "(string \<times> jsval) list"
  | ConsoleError js_error

text \<open>
  \<open>trace\<close> logs every call on a collaborator together with the clock value at which
  it was issued.
\<close>

record world =
  storage :: "string \<rightharpoonup> jsval"
  time :: real
  trace :: "(real \<times> event) list"

text \<open>
  The \<^verbatim>\<open>Response\<close> object of the fetch: the two fields the code reads, and what
  awaiting \<^verbatim>\<open>response.json()\<close> gives (a \<^verbatim>\<open>SyntaxError\<close> on a body that is not JSON)
  after \<open>json_delay\<close> milliseconds.
\<close>

record response =
  ok :: bool
  status :: nat
  json_delay :: real
  json_reply :: "js_error + jsval"

text \<open>
  What the collaborators do during one call of \<^verbatim>\<open>get()\<close>: for each awaited call the
  milliseconds it takes and whether it rejects. \<open>read\<close> is the read of line 10,
  \<open>reread\<close> the one of line 37, \<open>set\<close> the write of line 27.
  \<open>coerce\<close> stands for ECMAScript's ToNumber on strings, arrays and objects (it can
  answer NaN, here \<open>None\<close>, and on an object it can throw); the subtraction of
  line 14 applies it when the stored timestamp is not a number.
\<close>

record env =
  read_delay :: real
  read_error :: "js_error option"
  coerce :: "jsval \<Rightarrow> js_error + real option"
  fetch_delay :: real
  fetch_reply :: "js_error + response"
  set_delay :: real
  set_error :: "js_error option"
  reread_delay :: real
  reread_error :: "js_error option"

text \<open>
  \<^verbatim>\<open>await chrome.storage.local.get(keys)\<close>: the entries of the store under the given
  keys, absent keys missing from the result.
\<close>

definition storage_local_get ::
  "real \<Rightarrow> js_error option \<Rightarrow> string list \<Rightarrow> world
     \<Rightarrow> (js_error + (string \<rightharpoonup> jsval)) \<times> world" where
  "storage_local_get d err keys w =
     (let w' = w\<lparr>time := time w + d, trace := trace w @ [(time w, StorageGet keys)]\<rparr>
      in case err of
           Some e \<Rightarrow> (Inl e, w')
         | None \<Rightarrow> (Inr (storage w |` set keys), w'))"

text \<open>
  \<^verbatim>\<open>await chrome.storage.local.set(items)\<close>: one call that stores every item; a call
  that rejects stores nothing.
\<close>

definition storage_local_set ::
  "real \<Rightarrow> js_error option \<Rightarrow> (string \<times> jsval) list \<Rightarrow> world
     \<Rightarrow> js_error option \<times> world" where
  "storage_local_set d err items w =
     (let w' = w\<lparr>time := time w + d, trace := trace w @ [(time w, StorageSet items)]\<rparr>
      in case err of
           Some e \<Rightarrow> (Some e, w')
         | None \<Rightarrow>
             (None, w'\<lparr>storage := foldl (\<lambda>m (k, v). m(k \<mapsto> v)) (storage w) items\<rparr>))"

definition Date_now :: "world \<Rightarrow> real \<times> world" where
  "Date_now w = (time w, w\<lparr>trace := trace w @ [(time w, DateNow)]\<rparr>)"

definition fetch ::
  "real \<Rightarrow> js_error + response \<Rightarrow> string \<Rightarrow> world \<Rightarrow> (js_error + response) \<times> world" where
  "fetch d reply url w =
     (reply, w\<lparr>time := time w + d, trace := trace w @ [(time w, Fetch url)]\<rparr>)"

definition response_json :: "response \<Rightarrow> world \<Rightarrow> (js_error + jsval) \<times> world" where
  "response_json r w =
     (json_reply r,
      w\<lparr>time := time w + json_delay r, trace := trace w @ [(time w, ResponseJson)]\<rparr>)"

definition console_error :: "js_error \<Rightarrow> world \<Rightarrow> world" where
  "console_error e w = w\<lparr>trace := trace w @ [(time w, ConsoleError e)]\<rparr>"

subsection \<open>ConfigManager.get (lines 7-40)\<close>

text \<open>
  ToNumber, which the subtraction \<^verbatim>\<open>now - cacheTime\<close> applies to its right operand.
\<close>

fun ToNumber :: "env \<Rightarrow> jsval \<Rightarrow> js_error + real option" where
  "ToNumber e JNull = Inr (Some 0)"
| "ToNumber e (JBool b) = Inr (Some (if b then 1 else 0))"
| "ToNumber e (JNum n) = Inr (Some n)"
| "ToNumber e v = coerce e v"

text \<open>
  The condition of line 14,
  \<^verbatim>\<open>cachedPrompts && cacheTime && (now - cacheTime < CACHE_DURATION)\<close>,
  evaluated left to right; a comparison with NaN is false.
\<close>

definition cache_fresh ::
  "env \<Rightarrow> jsval option \<Rightarrow> jsval option \<Rightarrow> real \<Rightarrow> js_error + bool" where
  "cache_fresh e cachedPrompts cacheTime now =
     (if \<not> truthy cachedPrompts then Inr False
      else if \<not> truthy cacheTime then Inr False
      else case cacheTime of
             None \<Rightarrow> Inr False
           | Some v \<Rightarrow>
               (case ToNumber e v of
                  Inl err \<Rightarrow> Inl err
                | Inr None \<Rightarrow> Inr False
                | Inr (Some t) \<Rightarrow> Inr (now - t < CACHE_DURATION)))"

text \<open>Lines 18-31: fetch from GitHub, update the cache, return the data.\<close>

definition fetch_and_update ::
  "env \<Rightarrow> real \<Rightarrow> world \<Rightarrow> (js_error + jsval option) \<times> world" where
  "fetch_and_update e now w =
     (case fetch (fetch_delay e) (fetch_reply e) GITHUB_PROMPTS_URL w of
        (Inl err, w1) \<Rightarrow> (Inl err, w1)
      | (Inr r, w1) \<Rightarrow>
          if \<not> ok r then (Inl (HttpError (status r)), w1)
          else (case response_json r w1 of
                  (Inl err, w2) \<Rightarrow> (Inl err, w2)
                | (Inr data, w2) \<Rightarrow>
                    (case storage_local_set (set_delay e) (set_error e)
                            [(CACHE_KEY, data), (CACHE_TIMESTAMP_KEY, JNum now)] w2 of
                       (Some err, w3) \<Rightarrow> (Inl err, w3)
                     | (None, w3) \<Rightarrow> (Inr (Some data), w3))))"

text \<open>Lines 9-31, the body of the \<^verbatim>\<open>try\<close>; \<open>Inl\<close> is an exception thrown in it.\<close>

definition get_try :: "env \<Rightarrow> world \<Rightarrow> (js_error + jsval option) \<times> world" where
  "get_try e w =
     (case storage_local_get (read_delay e) (read_error e)
             [CACHE_KEY, CACHE_TIMESTAMP_KEY] w of
        (Inl err, w1) \<Rightarrow> (Inl err, w1)
      | (Inr cache, w1) \<Rightarrow>
          (let cachedPrompts = cache CACHE_KEY;
               cacheTime = cache CACHE_TIMESTAMP_KEY
           in case Date_now w1 of
                (now, w2) \<Rightarrow>
                  (case cache_fresh e cachedPrompts cacheTime now of
                     Inl err \<Rightarrow> (Inl err, w2)
                   | Inr True \<Rightarrow> (Inr cachedPrompts, w2)
                   | Inr False \<Rightarrow> fetch_and_update e now w2)))"

text \<open>
  Lines 33-39, the \<^verbatim>\<open>catch\<close>: log, re-read the payload key alone, return what is
  there. The re-read is outside every \<^verbatim>\<open>try\<close>, so its rejection reaches the caller.
\<close>

definition get_catch ::
  "env \<Rightarrow> js_error \<Rightarrow> world \<Rightarrow> (js_error + jsval option) \<times> world" where
  "get_catch e err w =
     (case storage_local_get (reread_delay e) (reread_error e) [CACHE_KEY]
             (console_error err w) of
        (Inl err', w1) \<Rightarrow> (Inl err', w1)
      | (Inr cache, w1) \<Rightarrow> (Inr (cache CACHE_KEY), w1))"

text \<open>
  \<^verbatim>\<open>get()\<close>: \<open>Inr v\<close> is the value the promise resolves to, \<open>Inl err\<close> an
  exception that reaches the caller.
\<close>

definition get :: "env \<Rightarrow> world \<Rightarrow> (js_error + jsval option) \<times> world" where
  "get e w =
     (case get_try e w of
        (Inl err, w1) \<Rightarrow> get_catch e err w1
      | (Inr v, w1) \<Rightarrow> (Inr v, w1))"

subsection \<open>Vocabulary of the properties\<close>

text \<open>
  The calls that one \<^verbatim>\<open>get()\<close> makes on its collaborators, in order, each with
  the clock value at which it is issued; and the calls alone.
\<close>

definition timed_calls :: "env \<Rightarrow> world \<Rightarrow> (real \<times> event) list" where
  "timed_calls e w = drop (length (trace w)) (trace (snd (get e w)))"

definition calls :: "env \<Rightarrow> world \<Rightarrow> event list" where
  "calls e w = map snd (timed_calls e w)"

definition is_fetch :: "event \<Rightarrow> bool" where
  "is_fetch ev = (case ev of Fetch url \<Rightarrow> True | _ \<Rightarrow> False)"

definition is_set :: "event \<Rightarrow> bool" where
  "is_set ev = (case ev of StorageSet items \<Rightarrow> True | _ \<Rightarrow> False)"

definition fetches :: "env \<Rightarrow> world \<Rightarrow> nat" where
  "fetches e w = length (filter is_fetch (calls e w))"

text \<open>The clock value \<^verbatim>\<open>get()\<close> samples on line 13, after the first read.\<close>

definition sampled_now :: "env \<Rightarrow> world \<Rightarrow> real" where
  "sampled_now e w = time w + read_delay e"

text \<open>No operation of the persistent store rejects during the call.\<close>

definition store_ok :: "env \<Rightarrow> bool" where
  "store_ok e = (read_error e = None \<and> set_error e = None \<and> reread_error e = None)"

text \<open>
  The network fetch fails: a transport error, a non-success status, or a body that
  does not parse.
\<close>

definition fetch_fails :: "env \<Rightarrow> bool" where
  "fetch_fails e =
     (case fetch_reply e of
        Inl err \<Rightarrow> True
      | Inr r \<Rightarrow> (if \<not> ok r then True
                  else case json_reply r of Inl err \<Rightarrow> True | Inr data \<Rightarrow> False))"

text \<open>The fetch succeeds with the payload \<open>data\<close>.\<close>

definition fetch_gives :: "env \<Rightarrow> jsval \<Rightarrow> bool" where
  "fetch_gives e data =
     (case fetch_reply e of
        Inl err \<Rightarrow> False
      | Inr r \<Rightarrow> ok r \<and> json_reply r = Inr data)"

text \<open>
  The outcome of the test of line 14 on what the first read returns: \<open>hit\<close> when it
  is true, \<open>missed\<close> when it is false (it can also throw, which is neither).
\<close>

definition hit :: "env \<Rightarrow> world \<Rightarrow> bool" where
  "hit e w =
     (read_error e = None \<and>
      cache_fresh e (storage w CACHE_KEY) (storage w CACHE_TIMESTAMP_KEY) (sampled_now e w)
        = Inr True)"

definition missed :: "env \<Rightarrow> world \<Rightarrow> bool" where
  "missed e w =
     (read_error e = None \<and>
      cache_fresh e (storage w CACHE_KEY) (storage w CACHE_TIMESTAMP_KEY) (sampled_now e w)
        = Inr False)"

text \<open>
  The call \<open>get e w\<close> fetched the payload \<open>P\<close> successfully and stored it with the
  timestamp \<open>T\<close>: it issued the fetch, the fetch gave \<open>P\<close>, the store accepted the
  write, and \<open>T\<close> is the clock value the call sampled.
\<close>

definition fetched_at :: "env \<Rightarrow> world \<Rightarrow> jsval \<Rightarrow> real \<Rightarrow> bool" where
  "fetched_at e w P T =
     (fetches e w = 1 \<and> fetch_gives e P \<and> set_error e = None \<and> sampled_now e w = T)"

text \<open>The wall clock does not step backwards while a call is awaited.\<close>

definition clock_monotone :: "env \<Rightarrow> bool" where
  "clock_monotone e =
     (0 \<le> read_delay e \<and> 0 \<le> fetch_delay e \<and> 0 \<le> set_delay e \<and> 0 \<le> reread_delay e \<and>
      (case fetch_reply e of Inl err \<Rightarrow> True | Inr r \<Rightarrow> 0 \<le> json_delay r))"

text \<open>The stored timestamp, when it is a number, is not in the future of the clock.\<close>

definition timestamp_not_future :: "world \<Rightarrow> bool" where
  "timestamp_not_future w =
     (case storage w CACHE_TIMESTAMP_KEY of
        Some (JNum t) \<Rightarrow> t \<le> time w
      | _ \<Rightarrow> True)"

subsection \<open>The scenarios of the specification\<close>

text \<open>The payload \<^verbatim>\<open>{"a":1}\<close>.\<close>

definition config_a1 :: jsval where
  "config_a1 = JObj [(''a'', JNum 1)]"

text \<open>A store that works and an unreachable network.\<close>

definition offline :: env where
  "offline =
     \<lparr>read_delay = 0, read_error = None, coerce = (\<lambda>v. Inr None),
      fetch_delay = 0, fetch_reply = Inl NetworkError,
      set_delay = 0, set_error = None,
      reread_delay = 0, reread_error = None\<rparr>"

text \<open>
  A store that works and a network that serves \<open>data\<close> with status 200; the fetch
  takes \<open>d\<close> milliseconds.
\<close>

definition online :: "real \<Rightarrow> jsval \<Rightarrow> env" where
  "online d data =
     \<lparr>read_delay = 0, read_error = None, coerce = (\<lambda>v. Inr None),
      fetch_delay = d,
      fetch_reply = Inr \<lparr>ok = True, status = 200, json_delay = 0, json_reply = Inr data\<rparr>,
      set_delay = 0, set_error = None,
      reread_delay = 0, reread_error = None\<rparr>"

text \<open>The store empty, respectively holding \<open>P\<close> with the timestamp \<open>T\<close>, at the time \<open>t\<close>.\<close>

definition empty_cache :: "real \<Rightarrow> world" where
  "empty_cache t = \<lparr>storage = Map.empty, time = t, trace = []\<rparr>"

definition cached :: "jsval \<Rightarrow> real \<Rightarrow> real \<Rightarrow> world" where
  "cached P T t =
     \<lparr>storage = [CACHE_KEY \<mapsto> P, CACHE_TIMESTAMP_KEY \<mapsto> JNum T], time = t, trace = []\<rparr>"

section \<open>The paths through get\<close>

text \<open>
  One lemma per path through the method, each giving the value returned and the world
  left behind. The six paths on which the \<^verbatim>\<open>try\<close> block throws end in the
  \<^verbatim>\<open>catch\<close> block, whose effect is \<open>get_catch_eq\<close>.
\<close>

lemma keys_distinct: "CACHE_KEY \<noteq> CACHE_TIMESTAMP_KEY" "CACHE_TIMESTAMP_KEY \<noteq> CACHE_KEY"
  by (simp_all add: CACHE_KEY_def CACHE_TIMESTAMP_KEY_def)

lemmas get_defs = get_def get_try_def fetch_and_update_def
  storage_local_get_def storage_local_set_def Date_now_def fetch_def response_json_def

lemma get_catch_eq:
  "get_catch e err w =
     ((case reread_error e of Some err' \<Rightarrow> Inl err' | None \<Rightarrow> Inr (storage w CACHE_KEY)),
      w\<lparr>time := time w + reread_delay e,
        trace := trace w @ [(time w, ConsoleError err), (time w, StorageGet [CACHE_KEY])]\<rparr>)"
  by (simp add: get_catch_def storage_local_get_def console_error_def Let_def split: option.split)

lemma get_read_rejected:
  assumes "read_error e = Some err"
  shows "get e w =
    get_catch e err
      (w\<lparr>time := sampled_now e w,
         trace := trace w @ [(time w, StorageGet [CACHE_KEY, CACHE_TIMESTAMP_KEY])]\<rparr>)"
  using assms by (simp add: get_defs sampled_now_def Let_def)

lemma get_test_throws:
  assumes "read_error e = None"
    and "cache_fresh e (storage w CACHE_KEY) (storage w CACHE_TIMESTAMP_KEY) (sampled_now e w)
           = Inl err"
  shows "get e w =
    get_catch e err
      (w\<lparr>time := sampled_now e w,
         trace := trace w @ [(time w, StorageGet [CACHE_KEY, CACHE_TIMESTAMP_KEY]),
                             (sampled_now e w, DateNow)]\<rparr>)"
  using assms by (simp add: get_defs sampled_now_def Let_def)

lemma get_hit:
  assumes "hit e w"
  shows "get e w =
    (Inr (storage w CACHE_KEY),
     w\<lparr>time := sampled_now e w,
       trace := trace w @ [(time w, StorageGet [CACHE_KEY, CACHE_TIMESTAMP_KEY]),
                           (sampled_now e w, DateNow)]\<rparr>)"
  using assms by (simp add: hit_def get_defs sampled_now_def Let_def)

lemma get_fetch_rejected:
  assumes "missed e w" and "fetch_reply e = Inl err"
  shows "get e w =
    get_catch e err
      (w\<lparr>time := sampled_now e w + fetch_delay e,
         trace := trace w @ [(time w, StorageGet [CACHE_KEY, CACHE_TIMESTAMP_KEY]),
                             (sampled_now e w, DateNow),
                             (sampled_now e w, Fetch GITHUB_PROMPTS_URL)]\<rparr>)"
  using assms by (simp add: missed_def get_defs sampled_now_def Let_def)

lemma get_http_error:
  assumes "missed e w" and "fetch_reply e = Inr r" and "\<not> ok r"
  shows "get e w =
    get_catch e (HttpError (status r))
      (w\<lparr>time := sampled_now e w + fetch_delay e,
         trace := trace w @ [(time w, StorageGet [CACHE_KEY, CACHE_TIMESTAMP_KEY]),
                             (sampled_now e w, DateNow),
                             (sampled_now e w, Fetch GITHUB_PROMPTS_URL)]\<rparr>)"
  using assms by (simp add: missed_def get_defs sampled_now_def Let_def)

lemma get_parse_error:
  assumes "missed e w" and "fetch_reply e = Inr r" and "ok r" and "json_reply r = Inl err"
  shows "get e w =
    get_catch e err
      (w\<lparr>time := sampled_now e w + fetch_delay e + json_delay r,
         trace := trace w @ [(time w, StorageGet [CACHE_KEY, CACHE_TIMESTAMP_KEY]),
                             (sampled_now e w, DateNow),
                             (sampled_now e w, Fetch GITHUB_PROMPTS_URL),
                             (sampled_now e w + fetch_delay e, ResponseJson)]\<rparr>)"
  using assms by (simp add: missed_def get_defs sampled_now_def Let_def)

lemma get_set_rejected:
  assumes "missed e w" and "fetch_reply e = Inr r" and "ok r" and "json_reply r = Inr data"
    and "set_error e = Some err"
  shows "get e w =
    get_catch e err
      (w\<lparr>time := sampled_now e w + fetch_delay e + json_delay r + set_delay e,
         trace := trace w @ [(time w, StorageGet [CACHE_KEY, CACHE_TIMESTAMP_KEY]),
                             (sampled_now e w, DateNow),
                             (sampled_now e w, Fetch GITHUB_PROMPTS_URL),
                             (sampled_now e w + fetch_delay e, ResponseJson),
                             (sampled_now e w + fetch_delay e + json_delay r,
                              StorageSet [(CACHE_KEY, data),
                                          (CACHE_TIMESTAMP_KEY, JNum (sampled_now e w))])]\<rparr>)"
  using assms by (simp add: missed_def get_defs sampled_now_def Let_def)

lemma get_success:
  assumes "missed e w" and "fetch_reply e = Inr r" and "ok r" and "json_reply r = Inr data"
    and "set_error e = None"
  shows "get e w =
    (Inr (Some data),
     \<lparr>storage = (storage w)(CACHE_KEY \<mapsto> data, CACHE_TIMESTAMP_KEY \<mapsto> JNum (sampled_now e w)),
      time = sampled_now e w + fetch_delay e + json_delay r + set_delay e,
      trace = trace w @ [(time w, StorageGet [CACHE_KEY, CACHE_TIMESTAMP_KEY]),
                         (sampled_now e w, DateNow),
                         (sampled_now e w, Fetch GITHUB_PROMPTS_URL),
                         (sampled_now e w + fetch_delay e, ResponseJson),
                         (sampled_now e w + fetch_delay e + json_delay r,
                          StorageSet [(CACHE_KEY, data),
                                      (CACHE_TIMESTAMP_KEY, JNum (sampled_now e w))])]\<rparr>)"
  using assms by (simp add: missed_def get_defs sampled_now_def Let_def)

lemma get_paths [case_names Hit Refreshed Fallback]:
  obtains
    (Hit) "hit e w"
  | (Refreshed) data where "missed e w" and "fetch_gives e data" and "set_error e = None"
  | (Fallback) err t tr where
      "get e w = get_catch e err (w\<lparr>time := t, trace := trace w @ tr\<rparr>)"
      and "\<not> hit e w"
      and "length (filter is_fetch (map snd tr)) = (if missed e w then 1 else 0)"
      and "\<And>items. StorageSet items \<in> set (map snd tr) \<Longrightarrow>
             \<exists>data. fetch_gives e data \<and> missed e w \<and>
               items = [(CACHE_KEY, data), (CACHE_TIMESTAMP_KEY, JNum (sampled_now e w))]"
      and "clock_monotone e \<Longrightarrow> time w \<le> t"
proof (cases "read_error e")
  case (Some err)
  then have no: "\<not> hit e w" "\<not> missed e w"
    by (simp_all add: hit_def missed_def)
  show thesis
    by (rule Fallback [OF get_read_rejected [OF Some]])
       (simp_all add: no is_fetch_def clock_monotone_def sampled_now_def)
next
  case None
  let ?c = "cache_fresh e (storage w CACHE_KEY) (storage w CACHE_TIMESTAMP_KEY) (sampled_now e w)"
  show thesis
  proof (cases ?c)
    case (Inl err)
    then have no: "\<not> hit e w" "\<not> missed e w"
      by (simp_all add: hit_def missed_def)
    show thesis
      by (rule Fallback [OF get_test_throws [OF None Inl]])
         (simp_all add: no is_fetch_def clock_monotone_def sampled_now_def)
  next
    case (Inr b)
    show thesis
    proof (cases b)
      case True
      with None Inr have "hit e w" by (simp add: hit_def)
      then show thesis by (rule Hit)
    next
      case False
      with None Inr have m: "missed e w" and no: "\<not> hit e w"
        by (simp_all add: missed_def hit_def)
      show thesis
      proof (cases "fetch_reply e")
        case (Inl err)
        show thesis
          by (rule Fallback [OF get_fetch_rejected [OF m Inl]])
             (simp_all add: m no is_fetch_def clock_monotone_def sampled_now_def)
      next
        case r: (Inr r)
        show thesis
        proof (cases "ok r")
          case False
          show thesis
            by (rule Fallback [OF get_http_error [OF m r False]])
               (simp_all add: m no is_fetch_def clock_monotone_def sampled_now_def)
        next
          case okr: True
          show thesis
          proof (cases "json_reply r")
            case (Inl err)
            show thesis
              by (rule Fallback [OF get_parse_error [OF m r okr Inl]])
                 (simp_all add: m no r is_fetch_def clock_monotone_def sampled_now_def)
          next
            case d: (Inr data)
            from r okr d have g: "fetch_gives e data"
              by (simp add: fetch_gives_def)
            show thesis
            proof (cases "set_error e")
              case None
              from m g None show thesis by (rule Refreshed)
            next
              case (Some err)
              show thesis
                by (rule Fallback [OF get_set_rejected [OF m r okr d Some]])
                   (simp_all add: m no r g is_fetch_def clock_monotone_def sampled_now_def)
            qed
          qed
        qed
      qed
    qed
  qed
qed

section \<open>What a call shows\<close>

text \<open>
  The returned value, the store, the clock and the calls made, read off the three kinds
  of path: the cache hit, the refresh, and the fallback through the \<^verbatim>\<open>catch\<close> block.
\<close>

lemma fallback_obs:
  assumes "get e w = get_catch e err (w\<lparr>time := t, trace := trace w @ tr\<rparr>)"
  shows "fst (get e w) =
           (case reread_error e of Some err' \<Rightarrow> Inl err' | None \<Rightarrow> Inr (storage w CACHE_KEY))"
    and "storage (snd (get e w)) = storage w"
    and "time (snd (get e w)) = t + reread_delay e"
    and "timed_calls e w = tr @ [(t, ConsoleError err), (t, StorageGet [CACHE_KEY])]"
  by (simp_all add: assms get_catch_eq timed_calls_def split: option.split)

lemma fetch_givesD:
  assumes "fetch_gives e data"
  obtains r where "fetch_reply e = Inr r" and "ok r" and "json_reply r = Inr data"
  using assms by (auto simp: fetch_gives_def split: sum.splits)

lemma hit_not_missed: "hit e w \<Longrightarrow> \<not> missed e w"
  by (simp add: hit_def missed_def)

lemma hit_obs:
  assumes "hit e w"
  shows "fst (get e w) = Inr (storage w CACHE_KEY)"
    and "storage (snd (get e w)) = storage w"
    and "time (snd (get e w)) = sampled_now e w"
    and "timed_calls e w = [(time w, StorageGet [CACHE_KEY, CACHE_TIMESTAMP_KEY]),
                            (sampled_now e w, DateNow)]"
  by (simp_all add: get_hit [OF assms] timed_calls_def)

lemma refreshed_obs:
  assumes "missed e w" and "fetch_reply e = Inr r" and "ok r" and "json_reply r = Inr data"
    and "set_error e = None"
  shows "fst (get e w) = Inr (Some data)"
    and "storage (snd (get e w)) =
           (storage w)(CACHE_KEY \<mapsto> data, CACHE_TIMESTAMP_KEY \<mapsto> JNum (sampled_now e w))"
    and "time (snd (get e w)) = sampled_now e w + fetch_delay e + json_delay r + set_delay e"
    and "timed_calls e w =
           [(time w, StorageGet [CACHE_KEY, CACHE_TIMESTAMP_KEY]),
            (sampled_now e w, DateNow),
            (sampled_now e w, Fetch GITHUB_PROMPTS_URL),
            (sampled_now e w + fetch_delay e, ResponseJson),
            (sampled_now e w + fetch_delay e + json_delay r,
             StorageSet [(CACHE_KEY, data), (CACHE_TIMESTAMP_KEY, JNum (sampled_now e w))])]"
  by (simp_all add: get_success [OF assms] timed_calls_def)

lemma fetches_eq: "fetches e w = (if missed e w then 1 else 0)"
proof (cases e w rule: get_paths)
  case Hit
  then show ?thesis
    by (simp add: fetches_def calls_def hit_obs is_fetch_def hit_not_missed)
next
  case (Refreshed data)
  from Refreshed(2) obtain r where "fetch_reply e = Inr r" "ok r" "json_reply r = Inr data"
    by (rule fetch_givesD)
  with Refreshed show ?thesis
    by (simp add: fetches_def calls_def refreshed_obs is_fetch_def)
next
  case (Fallback err t tr)
  then show ?thesis
    by (simp add: fetches_def calls_def fallback_obs is_fetch_def)
qed

lemma cache_fresh_number:
  "cache_fresh e (Some P) (Some (JNum T)) now =
     Inr (truthy (Some P) \<and> T \<noteq> 0 \<and> now - T < CACHE_DURATION)"
  by (simp add: cache_fresh_def)

lemma cache_fresh_falsy:
  "\<not> truthy p \<or> \<not> truthy t \<Longrightarrow> cache_fresh e p t now = Inr False"
  by (auto simp: cache_fresh_def)

lemma fetched_atD:
  assumes "fetched_at e w P T"
  obtains r where "missed e w" and "fetch_reply e = Inr r" and "ok r"
    and "json_reply r = Inr P" and "set_error e = None" and "sampled_now e w = T"
proof -
  from assms have m: "missed e w" 
    by (simp add: fetched_at_def fetches_eq split: if_splits)
  from assms have "fetch_gives e P" by (simp add: fetched_at_def)
  then obtain r where "fetch_reply e = Inr r" "ok r" "json_reply r = Inr P"
    by (rule fetch_givesD)
  with m assms that show thesis by (simp add: fetched_at_def)
qed

lemma value_cases:
  assumes "reread_error e = None"
  shows "fst (get e w) = Inr (storage w CACHE_KEY) \<or>
         (\<exists>data. fetch_gives e data \<and> missed e w \<and> fst (get e w) = Inr (Some data))"
proof (cases e w rule: get_paths)
  case Hit
  then show ?thesis by (simp add: hit_obs)
next
  case (Refreshed data)
  from Refreshed(2) obtain r where "fetch_reply e = Inr r" "ok r" "json_reply r = Inr data"
    by (rule fetch_givesD)
  with Refreshed have "fst (get e w) = Inr (Some data)"
    by (simp add: refreshed_obs)
  with Refreshed show ?thesis by blast
next
  case (Fallback err t tr)
  from fallback_obs(1) [OF Fallback(1)] assms show ?thesis by simp
qed

lemma fails_not_gives: "fetch_fails e \<Longrightarrow> \<not> fetch_gives e data"
  by (auto simp: fetch_fails_def fetch_gives_def split: sum.splits if_splits)

lemma value_when_fetch_fails:
  assumes "reread_error e = None" and "fetch_fails e"
  shows "fst (get e w) = Inr (storage w CACHE_KEY)"
  using value_cases [OF assms(1), of w] fails_not_gives [OF assms(2)] by blast

lemma fetched_at_storage:
  assumes "fetched_at e w P T"
  shows "storage (snd (get e w)) = (storage w)(CACHE_KEY \<mapsto> P, CACHE_TIMESTAMP_KEY \<mapsto> JNum T)"
proof -
  from assms obtain r where "missed e w" "fetch_reply e = Inr r" "ok r" "json_reply r = Inr P"
    "set_error e = None" "sampled_now e w = T"
    by (rule fetched_atD)
  then show ?thesis by (simp add: refreshed_obs)
qed

lemma refreshed_value:
  assumes "missed e w" and "fetch_gives e data" and "set_error e = None"
  shows "fst (get e w) = Inr (Some data)"
proof -
  from assms(2) obtain r where "fetch_reply e = Inr r" "ok r" "json_reply r = Inr data"
    by (rule fetch_givesD)
  with assms(1,3) show ?thesis by (simp add: refreshed_obs)
qed

lemma missed_number:
  assumes "read_error e = None" and "storage w CACHE_KEY = Some P"
    and "storage w CACHE_TIMESTAMP_KEY = Some (JNum T)"
  shows "missed e w \<longleftrightarrow> \<not> (truthy (Some P) \<and> T \<noteq> 0 \<and> sampled_now e w - T < CACHE_DURATION)"
    and "hit e w \<longleftrightarrow> truthy (Some P) \<and> T \<noteq> 0 \<and> sampled_now e w - T < CACHE_DURATION"
  using assms by (simp_all add: missed_def hit_def cache_fresh_number)

lemma fetched_at_iff:
  "fetched_at e w data T \<longleftrightarrow>
     missed e w \<and> fetch_gives e data \<and> set_error e = None \<and> sampled_now e w = T"
  by (simp add: fetched_at_def fetches_eq)

lemma fallback_calls:
  assumes "get e w = get_catch e err (w\<lparr>time := t, trace := trace w @ tr\<rparr>)"
  shows "calls e w = map snd tr @ [ConsoleError err, StorageGet [CACHE_KEY]]"
  by (simp add: calls_def fallback_obs(4) [OF assms])

lemma timestamp_not_future_later:
  assumes "timestamp_not_future w" and "storage w' = storage w" and "time w \<le> time w'"
  shows "timestamp_not_future w'"
  using assms by (auto simp: timestamp_not_future_def split: option.splits jsval.splits)

section \<open>Facts about the scenarios\<close>

text \<open>
  The four scenarios of the specification, and a rejecting store, evaluated on the
  definitions themselves.
\<close>

lemmas scenario_defs = get_defs get_catch_def console_error_def cache_fresh_def
  offline_def online_def empty_cache_def cached_def config_a1_def Let_def keys_distinct
  CACHE_DURATION_def

lemma scenario_first_fetch:
  "get (online 0 config_a1) (empty_cache 0) =
     (Inr (Some config_a1),
      \<lparr>storage = [CACHE_KEY \<mapsto> config_a1, CACHE_TIMESTAMP_KEY \<mapsto> JNum 0],
       time = 0,
       trace = [(0, StorageGet [CACHE_KEY, CACHE_TIMESTAMP_KEY]),
                (0, DateNow),
                (0, Fetch GITHUB_PROMPTS_URL),
                (0, ResponseJson),
                (0, StorageSet [(CACHE_KEY, config_a1), (CACHE_TIMESTAMP_KEY, JNum 0)])]\<rparr>)"
  by (simp add: scenario_defs)

lemma scenario_fresh_timestamp_zero:
  "get offline (cached config_a1 0 60000) =
     (Inr (Some config_a1),
      \<lparr>storage = [CACHE_KEY \<mapsto> config_a1, CACHE_TIMESTAMP_KEY \<mapsto> JNum 0],
       time = 60000,
       trace = [(60000, StorageGet [CACHE_KEY, CACHE_TIMESTAMP_KEY]),
                (60000, DateNow),
                (60000, Fetch GITHUB_PROMPTS_URL),
                (60000, ConsoleError NetworkError),
                (60000, StorageGet [CACHE_KEY])]\<rparr>)"
  by (simp add: scenario_defs)

lemma scenario_fresh_timestamp_one:
  "get offline (cached config_a1 1 60000) =
     (Inr (Some config_a1),
      \<lparr>storage = [CACHE_KEY \<mapsto> config_a1, CACHE_TIMESTAMP_KEY \<mapsto> JNum 1],
       time = 60000,
       trace = [(60000, StorageGet [CACHE_KEY, CACHE_TIMESTAMP_KEY]),
                (60000, DateNow)]\<rparr>)"
  by (simp add: scenario_defs)

lemma scenario_stale:
  "get offline (cached config_a1 0 180000) =
     (Inr (Some config_a1),
      \<lparr>storage = [CACHE_KEY \<mapsto> config_a1, CACHE_TIMESTAMP_KEY \<mapsto> JNum 0],
       time = 180000,
       trace = [(180000, StorageGet [CACHE_KEY, CACHE_TIMESTAMP_KEY]),
                (180000, DateNow),
                (180000, Fetch GITHUB_PROMPTS_URL),
                (180000, ConsoleError NetworkError),
                (180000, StorageGet [CACHE_KEY])]\<rparr>)"
  by (simp add: scenario_defs)

lemma scenario_nothing_available:
  "get offline (empty_cache 0) =
     (Inr None,
      \<lparr>storage = Map.empty,
       time = 0,
       trace = [(0, StorageGet [CACHE_KEY, CACHE_TIMESTAMP_KEY]),
                (0, DateNow),
                (0, Fetch GITHUB_PROMPTS_URL),
                (0, ConsoleError NetworkError),
                (0, StorageGet [CACHE_KEY])]\<rparr>)"
  by (simp add: scenario_defs)

lemma scenario_store_rejects:
  "fst (get (offline\<lparr>reread_error := Some StorageError\<rparr>) (empty_cache 0))
     = Inl StorageError"
  by (simp add: scenario_defs)

lemma store_ok_offline: "store_ok offline"
  by (simp add: store_ok_def offline_def)

lemma fetch_fails_offline: "fetch_fails offline"
  by (simp add: fetch_fails_def offline_def)

lemma storage_cached:
  "storage (cached P T t) CACHE_KEY = Some P"
  "storage (cached P T t) CACHE_TIMESTAMP_KEY = Some (JNum T)"
  by (simp_all add: cached_def keys_distinct)

lemma storage_empty_cache: "storage (empty_cache t) k = None"
  by (simp add: empty_cache_def)

lemma read_error_scenarios: "read_error offline = None" "read_error (online d data) = None"
  by (simp_all add: offline_def online_def)

lemma sampled_now_scenarios:
  "sampled_now offline w = time w" "sampled_now (online d data) w = time w"
  by (simp_all add: sampled_now_def offline_def online_def)

lemma time_scenarios: "time (cached P T t) = t" "time (empty_cache t) = t"
  by (simp_all add: cached_def empty_cache_def)

lemma fetch_gives_online: "fetch_gives (online d data) data"
  by (simp add: fetch_gives_def online_def)

lemma set_error_online: "set_error (online d data) = None"
  by (simp add: online_def)

lemma missed_empty_cache: "read_error e = None \<Longrightarrow> missed e (empty_cache t)"
  by (simp add: missed_def storage_empty_cache cache_fresh_falsy)

lemma fetched_at_online: "fetched_at (online d data) (empty_cache t) data t"
  by (simp add: fetched_at_def fetches_eq missed_empty_cache read_error_scenarios
      fetch_gives_online set_error_online sampled_now_scenarios time_scenarios)

lemma storage_after_online:
  "storage (cached data t t') = storage (snd (get (online d data) (empty_cache t)))"
proof -
  have "storage (snd (get (online d data) (empty_cache t))) =
      (storage (empty_cache t))(CACHE_KEY \<mapsto> data, CACHE_TIMESTAMP_KEY \<mapsto> JNum t)"
    by (rule fetched_at_storage [OF fetched_at_online])
  moreover have "storage (empty_cache t) = Map.empty"
    by (simp add: empty_cache_def)
  ultimately show ?thesis by (simp add: cached_def)
qed

lemma fetches_offline_empty: "fetches offline (empty_cache t) = 1"
  by (simp add: fetches_eq missed_empty_cache read_error_scenarios)

lemma hit_offline_fresh: "hit offline (cached config_a1 1000 61000)"
  by (simp add: missed_number(2) [OF read_error_scenarios(1) storage_cached]
      sampled_now_scenarios time_scenarios config_a1_def CACHE_DURATION_def)

lemma missed_offline_stale: "missed offline (cached config_a1 1000 181000)"
  by (simp add: missed_number(1) [OF read_error_scenarios(1) storage_cached]
      sampled_now_scenarios time_scenarios CACHE_DURATION_def)

lemma calls_offline_missed:
  assumes "missed offline w"
  shows "calls offline w =
    [StorageGet [CACHE_KEY, CACHE_TIMESTAMP_KEY], DateNow, Fetch GITHUB_PROMPTS_URL,
     ConsoleError NetworkError, StorageGet [CACHE_KEY]]"
proof -
  have "fetch_reply offline = Inl NetworkError" by (simp add: offline_def)
  from fallback_calls [OF get_fetch_rejected [OF assms this]] show ?thesis by simp
qed

lemma storage_changed_online:
  "storage (snd (get (online d config_a1) (empty_cache t))) \<noteq> storage (empty_cache t)"
proof
  assume "storage (snd (get (online d config_a1) (empty_cache t))) = storage (empty_cache t)"
  then have "storage (cached config_a1 t t) CACHE_KEY = storage (empty_cache t) CACHE_KEY"
    by (simp add: storage_after_online [of config_a1 t t d])
  then show False by (simp add: storage_cached storage_empty_cache)
qed

lemma clock_monotone_online: "0 \<le> d \<Longrightarrow> clock_monotone (online d data)"
  by (simp add: clock_monotone_def online_def)

lemma fetch_reply_online:
  "fetch_reply (online d data) =
     Inr \<lparr>ok = True, status = 200, json_delay = 0, json_reply = Inr data\<rparr>"
  by (simp add: online_def)

section \<open>The properties\<close>

text \<open>
  C1, as the code has it. Let a call have fetched the payload \<open>P\<close> successfully and
  stored it with the timestamp \<open>T\<close>, and let nothing else have written to the store.
  If \<open>P\<close> is truthy and \<open>T\<close> is not zero, a later call whose first read succeeds
  and which samples the clock at \<open>T'\<close> with \<open>T' - T < 120000\<close> returns \<open>P\<close>
  and performs no network fetch.
\<close>

theorem fresh_hit:
  assumes "fetched_at e0 w0 P T"
    and "storage w = storage (snd (get e0 w0))"
    and "truthy (Some P)" and "T \<noteq> 0"
    and "read_error e = None"
    and "sampled_now e w - T < CACHE_DURATION"
  shows "fst (get e w) = Inr (Some P) \<and> fetches e w = 0"
proof -
  from assms(1,2) have s: "storage w CACHE_KEY = Some P"
    "storage w CACHE_TIMESTAMP_KEY = Some (JNum T)"
    by (simp_all add: fetched_at_storage keys_distinct)
  from missed_number(2) [OF assms(5) s] assms(3,4,6) have h: "hit e w" by simp
  from hit_obs(1) [OF h] s(1) hit_not_missed [OF h] show ?thesis
    by (simp add: fetches_eq)
qed

theorem fresh_hit_witness:
  "fetched_at (online 250 config_a1) (empty_cache 1000) config_a1 1000 \<and>
   storage (cached config_a1 1000 61000) =
     storage (snd (get (online 250 config_a1) (empty_cache 1000))) \<and>
   truthy (Some config_a1) \<and> (1000::real) \<noteq> 0 \<and> read_error offline = None \<and>
   sampled_now offline (cached config_a1 1000 61000) - 1000 < CACHE_DURATION \<and>
   fst (get offline (cached config_a1 1000 61000)) = Inr (Some config_a1) \<and>
   fetches offline (cached config_a1 1000 61000) = 0"
proof -
  have a: "fetched_at (online 250 config_a1) (empty_cache 1000) config_a1 1000"
    by (rule fetched_at_online)
  have b: "storage (cached config_a1 1000 61000) =
      storage (snd (get (online 250 config_a1) (empty_cache 1000)))"
    by (rule storage_after_online)
  have c: "truthy (Some config_a1)" by (simp add: config_a1_def)
  have d: "(1000::real) \<noteq> 0" by simp
  have f: "sampled_now offline (cached config_a1 1000 61000) - 1000 < CACHE_DURATION"
    by (simp add: sampled_now_scenarios time_scenarios CACHE_DURATION_def)
  from fresh_hit [OF a b c d read_error_scenarios(1) f] a b c d f show ?thesis
    by (simp add: read_error_scenarios)
qed

text \<open>
  The claim as stated, for every payload, fails on a falsy one: the configuration
  \<^verbatim>\<open>null\<close> is fetched and stored at \<open>t = 1000\<close>; the call at \<open>t = 2000\<close>, well
  inside the window, fetches again and returns what the network now serves.
\<close>

theorem fresh_hit_counterexample:
  "fetched_at (online 0 JNull) (empty_cache 1000) JNull 1000 \<and>
   storage (cached JNull 1000 2000) = storage (snd (get (online 0 JNull) (empty_cache 1000))) \<and>
   read_error (online 0 config_a1) = None \<and>
   sampled_now (online 0 config_a1) (cached JNull 1000 2000) - 1000 < CACHE_DURATION \<and>
   fetches (online 0 config_a1) (cached JNull 1000 2000) = 1 \<and>
   fst (get (online 0 config_a1) (cached JNull 1000 2000)) = Inr (Some config_a1) \<and>
   \<not> (fst (get (online 0 config_a1) (cached JNull 1000 2000)) = Inr (Some JNull) \<and>
      fetches (online 0 config_a1) (cached JNull 1000 2000) = 0)"
proof -
  have m: "missed (online 0 config_a1) (cached JNull 1000 2000)"
    by (simp add: missed_number(1) [OF read_error_scenarios(2) storage_cached])
  then have n: "fetches (online 0 config_a1) (cached JNull 1000 2000) = 1"
    by (simp add: fetches_eq)
  have v: "fst (get (online 0 config_a1) (cached JNull 1000 2000)) = Inr (Some config_a1)"
    by (rule refreshed_value [OF m fetch_gives_online set_error_online])
  have f: "sampled_now (online 0 config_a1) (cached JNull 1000 2000) - 1000 < CACHE_DURATION"
    by (simp add: sampled_now_scenarios time_scenarios CACHE_DURATION_def)
  have b: "storage (cached JNull 1000 2000) =
      storage (snd (get (online 0 JNull) (empty_cache 1000)))"
    by (rule storage_after_online)
  have a: "fetched_at (online 0 JNull) (empty_cache 1000) JNull 1000"
    by (rule fetched_at_online)
  from a b n v f show ?thesis
    by (simp add: read_error_scenarios config_a1_def)
qed

text \<open>
  C2. Provided the operations of the persistent store succeed, \<^verbatim>\<open>get()\<close> never
  lets an exception reach its caller: it always resolves to a value. In particular, when
  the call issues the fetch and the fetch fails (transport error, non-success status or
  a body that does not parse), the error is caught: it is logged, the last call made is
  the re-read of the payload key, and the value returned is what the cache holds.
\<close>

theorem get_never_throws:
  assumes "store_ok e"
  shows "(\<exists>v. fst (get e w) = Inr v) \<and>
         (fetch_fails e \<and> fetches e w = 1 \<longrightarrow>
            (\<exists>err. ConsoleError err \<in> set (calls e w)) \<and>
            last (calls e w) = StorageGet [CACHE_KEY] \<and>
            fst (get e w) = Inr (storage w CACHE_KEY))"
proof -
  from assms have rr: "reread_error e = None" by (simp add: store_ok_def)
  from value_cases [OF rr, of w] have total: "\<exists>v. fst (get e w) = Inr v" by blast
  have caught: "(\<exists>err. ConsoleError err \<in> set (calls e w)) \<and>
      last (calls e w) = StorageGet [CACHE_KEY] \<and>
      fst (get e w) = Inr (storage w CACHE_KEY)"
    if f: "fetch_fails e" and n: "fetches e w = 1"
  proof (cases e w rule: get_paths)
    case Hit
    with n show ?thesis by (simp add: fetches_eq hit_not_missed)
  next
    case (Refreshed data)
    with fails_not_gives [OF f] show ?thesis by simp
  next
    case (Fallback err t tr)
    from fallback_calls [OF Fallback(1)] value_when_fetch_fails [OF rr f, of w]
    show ?thesis by auto
  qed
  from total caught show ?thesis by blast
qed

theorem get_never_throws_witness:
  "store_ok offline \<and> fetch_fails offline \<and> fetches offline (empty_cache 0) = 1 \<and>
   (\<exists>v. fst (get offline (empty_cache 0)) = Inr v) \<and>
   (\<exists>err. ConsoleError err \<in> set (calls offline (empty_cache 0))) \<and>
   last (calls offline (empty_cache 0)) = StorageGet [CACHE_KEY] \<and>
   fst (get offline (empty_cache 0)) = Inr (storage (empty_cache 0) CACHE_KEY)"
  using get_never_throws [OF store_ok_offline, of "empty_cache 0"]
  by (simp add: store_ok_offline fetch_fails_offline fetches_offline_empty)

text \<open>
  C3 (stale-serving). Whenever the store holds a cached payload \<open>P\<close> and the network
  fetch fails (transport error, non-success status, or a body that does not parse),
  \<^verbatim>\<open>get()\<close> returns \<open>P\<close>; nothing is assumed about the age of \<open>P\<close>, so it is
  returned also when its timestamp is past the freshness window. The store's operations
  are taken to succeed, as the specification does throughout.
\<close>

theorem stale_serving:
  assumes "store_ok e" and "fetch_fails e" and "storage w CACHE_KEY = Some P"
  shows "fst (get e w) = Inr (Some P)"
proof -
  from assms(1) have "reread_error e = None" by (simp add: store_ok_def)
  from value_when_fetch_fails [OF this assms(2), of w] assms(3) show ?thesis by simp
qed

text \<open>
  The scenario of the specification: \<^verbatim>\<open>{"a":1}\<close> cached at \<open>t = 0\<close>, the call at
  \<open>t = 180000\<close>, past the window, the network unreachable.
\<close>

theorem stale_serving_witness:
  "store_ok offline \<and> fetch_fails offline \<and>
   storage (cached config_a1 0 180000) CACHE_KEY = Some config_a1 \<and>
   \<not> (180000 - 0 < CACHE_DURATION) \<and>
   fst (get offline (cached config_a1 0 180000)) = Inr (Some config_a1)"
  using stale_serving [OF store_ok_offline fetch_fails_offline storage_cached(1),
      of config_a1 0 180000]
  by (simp add: store_ok_offline fetch_fails_offline storage_cached CACHE_DURATION_def)

text \<open>
  C4, as the code has it. In the scenario where the cache holds \<^verbatim>\<open>{"a":1}\<close> with the
  timestamp \<open>0\<close> and \<^verbatim>\<open>get()\<close> is called at \<open>t = 60000\<close> with the network
  unreachable, \<^verbatim>\<open>get()\<close> returns \<^verbatim>\<open>{"a":1}\<close>, but after one attempted network
  fetch: the timestamp \<open>0\<close> is falsy, the entry does not count as a hit, and the
  payload comes from the re-read of the \<^verbatim>\<open>catch\<close> block.
\<close>

theorem zero_timestamp_scenario:
  assumes "store_ok e" and "fetch_reply e = Inl err"
  shows "fst (get e (cached config_a1 0 60000)) = Inr (Some config_a1) \<and>
         fetches e (cached config_a1 0 60000) = 1"
proof -
  from assms(1) have r: "read_error e = None" and rr: "reread_error e = None"
    by (simp_all add: store_ok_def)
  from assms(2) have f: "fetch_fails e" by (simp add: fetch_fails_def)
  have "missed e (cached config_a1 0 60000)"
    by (simp add: missed_number(1) [OF r storage_cached])
  then have "fetches e (cached config_a1 0 60000) = 1" by (simp add: fetches_eq)
  with value_when_fetch_fails [OF rr f, of "cached config_a1 0 60000"] show ?thesis
    by (simp add: storage_cached)
qed

theorem zero_timestamp_scenario_witness:
  "store_ok offline \<and> fetch_reply offline = Inl NetworkError \<and>
   fst (get offline (cached config_a1 0 60000)) = Inr (Some config_a1) \<and>
   fetches offline (cached config_a1 0 60000) = 1"
proof -
  have f: "fetch_reply offline = Inl NetworkError" by (simp add: offline_def)
  from zero_timestamp_scenario [OF store_ok_offline f] f show ?thesis
    by (simp add: store_ok_offline)
qed

text \<open>The scenario as stated: the call does attempt the network.\<close>

theorem zero_timestamp_scenario_counterexample:
  "sampled_now offline (cached config_a1 0 60000) = 60000 \<and>
   60000 - 0 < CACHE_DURATION \<and>
   fetches offline (cached config_a1 0 60000) = 1 \<and>
   \<not> (fst (get offline (cached config_a1 0 60000)) = Inr (Some config_a1) \<and>
      fetches offline (cached config_a1 0 60000) = 0)"
proof -
  have "missed offline (cached config_a1 0 60000)"
    by (simp add: missed_number(1) [OF read_error_scenarios(1) storage_cached])
  then have "fetches offline (cached config_a1 0 60000) = 1" by (simp add: fetches_eq)
  then show ?thesis
    by (simp add: sampled_now_scenarios time_scenarios CACHE_DURATION_def)
qed

text \<open>
  C5. With a clock that does not step backwards: a successful fetch issues exactly one
  write, which carries the payload and the timestamp together, after which the store
  holds both; the timestamp stored is not later than the clock when the call returns;
  and no call puts the stored timestamp into the future, so that a timestamp read
  afterwards is never later than the clock.
\<close>

theorem combined_write_not_future:
  assumes "clock_monotone e"
  shows "(fetched_at e w data T \<longrightarrow>
            filter is_set (calls e w) =
              [StorageSet [(CACHE_KEY, data), (CACHE_TIMESTAMP_KEY, JNum T)]] \<and>
            storage (snd (get e w)) =
              (storage w)(CACHE_KEY \<mapsto> data, CACHE_TIMESTAMP_KEY \<mapsto> JNum T) \<and>
            T \<le> time (snd (get e w))) \<and>
         (timestamp_not_future w \<longrightarrow> timestamp_not_future (snd (get e w)))"
proof -
  from assms have d: "0 \<le> read_delay e" "0 \<le> fetch_delay e" "0 \<le> set_delay e"
    "0 \<le> reread_delay e"
    by (simp_all add: clock_monotone_def)
  have first: "filter is_set (calls e w) =
        [StorageSet [(CACHE_KEY, data), (CACHE_TIMESTAMP_KEY, JNum T)]] \<and>
      storage (snd (get e w)) =
        (storage w)(CACHE_KEY \<mapsto> data, CACHE_TIMESTAMP_KEY \<mapsto> JNum T) \<and>
      T \<le> time (snd (get e w))"
    if "fetched_at e w data T"
  proof -
    from that obtain r where m: "missed e w" and r: "fetch_reply e = Inr r" "ok r"
      "json_reply r = Inr data" and s: "set_error e = None" and T: "sampled_now e w = T"
      by (rule fetched_atD)
    from assms r(1) have j: "0 \<le> json_delay r" by (simp add: clock_monotone_def)
    from refreshed_obs(2-4) [OF m r s] T d j show ?thesis
      by (simp add: calls_def is_set_def)
  qed
  have second: "timestamp_not_future (snd (get e w))" if inv: "timestamp_not_future w"
  proof (cases e w rule: get_paths)
    case Hit
    from hit_obs(2,3) [OF Hit] d show ?thesis
      by (intro timestamp_not_future_later [OF inv]) (simp_all add: sampled_now_def)
  next
    case (Refreshed data')
    from Refreshed(2) obtain r where r: "fetch_reply e = Inr r" "ok r" "json_reply r = Inr data'"
      by (rule fetch_givesD)
    from assms r(1) have j: "0 \<le> json_delay r" by (simp add: clock_monotone_def)
    from refreshed_obs(2,3) [OF Refreshed(1) r Refreshed(3)] d j show ?thesis
      by (simp add: timestamp_not_future_def keys_distinct)
  next
    case (Fallback err t tr)
    from fallback_obs(2,3) [OF Fallback(1)] Fallback(5) [OF assms] d show ?thesis
      by (intro timestamp_not_future_later [OF inv]) simp_all
  qed
  from first second show ?thesis by blast
qed

theorem combined_write_not_future_witness:
  "clock_monotone (online 250 config_a1) \<and>
   fetched_at (online 250 config_a1) (empty_cache 0) config_a1 0 \<and>
   timestamp_not_future (empty_cache 0) \<and>
   filter is_set (calls (online 250 config_a1) (empty_cache 0)) =
     [StorageSet [(CACHE_KEY, config_a1), (CACHE_TIMESTAMP_KEY, JNum 0)]] \<and>
   storage (snd (get (online 250 config_a1) (empty_cache 0))) =
     (storage (empty_cache 0))(CACHE_KEY \<mapsto> config_a1, CACHE_TIMESTAMP_KEY \<mapsto> JNum 0) \<and>
   0 \<le> time (snd (get (online 250 config_a1) (empty_cache 0))) \<and>
   timestamp_not_future (snd (get (online 250 config_a1) (empty_cache 0)))"
proof -
  have m: "clock_monotone (online 250 config_a1)"
    by (rule clock_monotone_online) simp
  have i: "timestamp_not_future (empty_cache 0)"
    by (simp add: timestamp_not_future_def storage_empty_cache)
  from combined_write_not_future [OF m, of "empty_cache 0" config_a1 0] m i show ?thesis
    by (simp add: fetched_at_online)
qed

text \<open>
  C6. \<^verbatim>\<open>get()\<close> writes to the persistent store only on the successful-fetch path.
  On a cache hit the store is unchanged and no write is issued; whenever the
  \<^verbatim>\<open>catch\<close> block runs the store is unchanged; a write is issued only after the
  fetch has succeeded, and it is the write of the fetched payload with the sampled
  clock value; and a store that has changed means the call fetched successfully and
  returns the fetched payload.
\<close>

theorem writes_only_on_success:
  "(hit e w \<longrightarrow> storage (snd (get e w)) = storage w \<and> filter is_set (calls e w) = []) \<and>
   ((\<exists>err. ConsoleError err \<in> set (calls e w)) \<longrightarrow> storage (snd (get e w)) = storage w) \<and>
   (\<forall>items. StorageSet items \<in> set (calls e w) \<longrightarrow>
      (\<exists>data. fetch_gives e data \<and> fetches e w = 1 \<and>
         items = [(CACHE_KEY, data), (CACHE_TIMESTAMP_KEY, JNum (sampled_now e w))])) \<and>
   (storage (snd (get e w)) \<noteq> storage w \<longrightarrow>
      (\<exists>data. fetched_at e w data (sampled_now e w) \<and> fst (get e w) = Inr (Some data)))"
proof (cases e w rule: get_paths)
  case Hit
  then show ?thesis
    by (simp add: calls_def hit_obs is_set_def)
next
  case (Refreshed data)
  from Refreshed(2) obtain r where r: "fetch_reply e = Inr r" "ok r" "json_reply r = Inr data"
    by (rule fetch_givesD)
  from Refreshed have fa: "fetched_at e w data (sampled_now e w)"
    by (simp add: fetched_at_iff)
  from Refreshed(1) have nh: "\<not> hit e w" using hit_not_missed by blast
  from refreshed_obs(4) [OF Refreshed(1) r Refreshed(3)]
  have c: "calls e w = [StorageGet [CACHE_KEY, CACHE_TIMESTAMP_KEY], DateNow, Fetch GITHUB_PROMPTS_URL,
      ResponseJson, StorageSet [(CACHE_KEY, data), (CACHE_TIMESTAMP_KEY, JNum (sampled_now e w))]]"
    by (simp add: calls_def)
  from refreshed_value [OF Refreshed] have v: "fst (get e w) = Inr (Some data)" .
  from Refreshed(1,2) have "fetch_gives e data \<and> fetches e w = 1" by (simp add: fetches_eq)
  with nh c fa v show ?thesis by auto
next
  case (Fallback err t tr)
  have s: "storage (snd (get e w)) = storage w"
    by (rule fallback_obs(2) [OF Fallback(1)])
  have "\<exists>data. fetch_gives e data \<and> fetches e w = 1 \<and>
         items = [(CACHE_KEY, data), (CACHE_TIMESTAMP_KEY, JNum (sampled_now e w))]"
    if "StorageSet items \<in> set (calls e w)" for items
  proof -
    from that have "StorageSet items \<in> set (map snd tr)"
      by (simp add: fallback_calls [OF Fallback(1)])
    from Fallback(4) [OF this] show ?thesis by (auto simp: fetches_eq)
  qed
  with s Fallback(2) show ?thesis by blast
qed

theorem writes_only_on_success_witness:
  "hit offline (cached config_a1 1000 61000) \<and>
   storage (snd (get offline (cached config_a1 1000 61000))) =
     storage (cached config_a1 1000 61000) \<and>
   filter is_set (calls offline (cached config_a1 1000 61000)) = [] \<and>
   ConsoleError NetworkError \<in> set (calls offline (cached config_a1 1000 181000)) \<and>
   storage (snd (get offline (cached config_a1 1000 181000))) =
     storage (cached config_a1 1000 181000) \<and>
   storage (snd (get (online 250 config_a1) (empty_cache 0))) \<noteq> storage (empty_cache 0) \<and>
   (\<exists>data. fetched_at (online 250 config_a1) (empty_cache 0) data
             (sampled_now (online 250 config_a1) (empty_cache 0)) \<and>
           fst (get (online 250 config_a1) (empty_cache 0)) = Inr (Some data))"
proof -
  have c: "ConsoleError NetworkError \<in> set (calls offline (cached config_a1 1000 181000))"
    by (simp add: calls_offline_missed [OF missed_offline_stale])
  from writes_only_on_success [of offline "cached config_a1 1000 61000"]
    writes_only_on_success [of offline "cached config_a1 1000 181000"]
    writes_only_on_success [of "online 250 config_a1" "empty_cache 0"]
    c hit_offline_fresh storage_changed_online [of 250 0]
  show ?thesis by blast
qed

text \<open>
  C7. Whenever no cached payload is present and the network fetch fails,
  \<^verbatim>\<open>get()\<close> returns \<^verbatim>\<open>undefined\<close> and raises nothing (the store's operations
  succeeding).
\<close>

theorem no_cache_no_network:
  assumes "store_ok e" and "fetch_fails e" and "storage w CACHE_KEY = None"
  shows "fst (get e w) = Inr None"
proof -
  from assms(1) have "reread_error e = None" by (simp add: store_ok_def)
  from value_when_fetch_fails [OF this assms(2), of w] assms(3) show ?thesis by simp
qed

theorem no_cache_no_network_witness:
  "store_ok offline \<and> fetch_fails offline \<and> storage (empty_cache 0) CACHE_KEY = None \<and>
   fst (get offline (empty_cache 0)) = Inr None"
  using no_cache_no_network [OF store_ok_offline fetch_fails_offline storage_empty_cache, of 0]
  by (simp add: store_ok_offline fetch_fails_offline storage_empty_cache)

text \<open>
  C8. Let a call have fetched the payload \<open>P\<close> successfully and stored it with the
  timestamp \<open>T\<close>. A later call whose first read succeeds and which samples the clock
  at \<open>T'\<close> with \<open>T' - T \<ge> 120000\<close> issues exactly one network fetch, whatever the
  fetch answers: a failed attempt is not retried.
\<close>

theorem refetch_after_window:
  assumes "fetched_at e0 w0 P T"
    and "storage w = storage (snd (get e0 w0))"
    and "read_error e = None"
    and "CACHE_DURATION \<le> sampled_now e w - T"
  shows "fetches e w = 1"
proof -
  from assms(1,2) have s: "storage w CACHE_KEY = Some P"
    "storage w CACHE_TIMESTAMP_KEY = Some (JNum T)"
    by (simp_all add: fetched_at_storage keys_distinct)
  from missed_number(1) [OF assms(3) s] assms(4) have "missed e w" by simp
  then show ?thesis by (simp add: fetches_eq)
qed

theorem refetch_after_window_witness:
  "fetched_at (online 250 config_a1) (empty_cache 1000) config_a1 1000 \<and>
   storage (cached config_a1 1000 121000) =
     storage (snd (get (online 250 config_a1) (empty_cache 1000))) \<and>
   read_error offline = None \<and>
   CACHE_DURATION \<le> sampled_now offline (cached config_a1 1000 121000) - 1000 \<and>
   fetch_fails offline \<and>
   fetches offline (cached config_a1 1000 121000) = 1"
proof -
  have a: "fetched_at (online 250 config_a1) (empty_cache 1000) config_a1 1000"
    by (rule fetched_at_online)
  have b: "storage (cached config_a1 1000 121000) =
      storage (snd (get (online 250 config_a1) (empty_cache 1000)))"
    by (rule storage_after_online)
  have f: "CACHE_DURATION \<le> sampled_now offline (cached config_a1 1000 121000) - 1000"
    by (simp add: sampled_now_scenarios time_scenarios CACHE_DURATION_def)
  from refetch_after_window [OF a b read_error_scenarios(1) f] a b f show ?thesis
    by (simp add: read_error_scenarios fetch_fails_offline)
qed

text \<open>
  C9. If the cached payload is one of the falsy values \<^verbatim>\<open>null\<close>, \<^verbatim>\<open>false\<close>,
  \<^verbatim>\<open>0\<close>, \<^verbatim>\<open>""\<close>, or the cached timestamp is \<^verbatim>\<open>0\<close>, the test of line 14 is
  false and the call issues a network fetch, however young the entry is.
\<close>

theorem falsy_entry_is_missed:
  assumes "read_error e = None"
    and "storage w CACHE_KEY = Some P"
    and "P \<in> {JNull, JBool False, JNum 0, JStr []} \<or>
         storage w CACHE_TIMESTAMP_KEY = Some (JNum 0)"
  shows "missed e w \<and> fetches e w = 1"
proof -
  from assms(2,3) have "\<not> truthy (storage w CACHE_KEY) \<or> \<not> truthy (storage w CACHE_TIMESTAMP_KEY)"
    by auto
  then have "missed e w"
    by (simp add: missed_def assms(1) cache_fresh_falsy)
  then show ?thesis by (simp add: fetches_eq)
qed

theorem falsy_entry_is_missed_witness:
  "read_error offline = None \<and>
   storage (cached (JNum 0) 1000 2000) CACHE_KEY = Some (JNum 0) \<and>
   JNum 0 \<in> {JNull, JBool False, JNum 0, JStr []} \<and>
   sampled_now offline (cached (JNum 0) 1000 2000) - 1000 < CACHE_DURATION \<and>
   missed offline (cached (JNum 0) 1000 2000) \<and>
   fetches offline (cached (JNum 0) 1000 2000) = 1"
proof -
  have c: "JNum 0 \<in> {JNull, JBool False, JNum 0, JStr []} \<or>
      storage (cached (JNum 0) 1000 2000) CACHE_TIMESTAMP_KEY = Some (JNum 0)"
    by simp
  from falsy_entry_is_missed [OF read_error_scenarios(1) storage_cached(1) c] show ?thesis
    by (simp add: read_error_scenarios storage_cached sampled_now_scenarios time_scenarios
        CACHE_DURATION_def)
qed

text \<open>
  C10. On a successful fetch the timestamp stored is the clock value sampled on line 13,
  after the first read and before the fetch is issued; the write is issued only
  \<open>fetch_delay + json_delay\<close> later. Consequently a later call (the payload truthy,
  the timestamp not zero) answers from the cache exactly while the time since the write
  was issued is below the freshness window shortened by the duration of the fetch.
\<close>

theorem timestamp_is_sampled_before_fetch:
  assumes "fetched_at e w data T" and "fetch_reply e = Inr r"
  shows "T = sampled_now e w \<and>
         storage (snd (get e w)) CACHE_TIMESTAMP_KEY = Some (JNum T) \<and>
         timed_calls e w =
           [(time w, StorageGet [CACHE_KEY, CACHE_TIMESTAMP_KEY]),
            (T, DateNow),
            (T, Fetch GITHUB_PROMPTS_URL),
            (T + fetch_delay e, ResponseJson),
            (T + fetch_delay e + json_delay r,
             StorageSet [(CACHE_KEY, data), (CACHE_TIMESTAMP_KEY, JNum T)])] \<and>
         (storage w' = storage (snd (get e w)) \<and> truthy (Some data) \<and> T \<noteq> 0 \<and>
          read_error e' = None \<longrightarrow>
            (fetches e' w' = 0 \<longleftrightarrow>
               sampled_now e' w' - (T + fetch_delay e + json_delay r)
                 < CACHE_DURATION - (fetch_delay e + json_delay r)))"
proof -
  from assms(1) obtain r' where m: "missed e w" and r': "fetch_reply e = Inr r'" "ok r'"
    "json_reply r' = Inr data" and s: "set_error e = None" and T: "sampled_now e w = T"
    by (rule fetched_atD)
  from r'(1) assms(2) have "r' = r" by simp
  with r' have r: "fetch_reply e = Inr r" "ok r" "json_reply r = Inr data" by simp_all
  have st: "storage (snd (get e w)) =
      (storage w)(CACHE_KEY \<mapsto> data, CACHE_TIMESTAMP_KEY \<mapsto> JNum T)"
    by (rule fetched_at_storage [OF assms(1)])
  have later: "fetches e' w' = 0 \<longleftrightarrow>
      sampled_now e' w' - (T + fetch_delay e + json_delay r)
        < CACHE_DURATION - (fetch_delay e + json_delay r)"
    if w': "storage w' = storage (snd (get e w))" and t: "truthy (Some data)" "T \<noteq> 0"
      and re: "read_error e' = None"
  proof -
    from w' st have k: "storage w' CACHE_KEY = Some data"
      "storage w' CACHE_TIMESTAMP_KEY = Some (JNum T)"
      by (simp_all add: keys_distinct)
    from missed_number(1) [OF re k] t show ?thesis
      by (simp add: fetches_eq)
  qed
  from refreshed_obs(4) [OF m r s] T st later show ?thesis
    by (simp add: keys_distinct)
qed

theorem timestamp_is_sampled_before_fetch_witness:
  "fetched_at (online 250 config_a1) (empty_cache 1000) config_a1 1000 \<and>
   storage (snd (get (online 250 config_a1) (empty_cache 1000))) CACHE_TIMESTAMP_KEY
     = Some (JNum 1000) \<and>
   timed_calls (online 250 config_a1) (empty_cache 1000) =
     [(1000, StorageGet [CACHE_KEY, CACHE_TIMESTAMP_KEY]),
      (1000, DateNow),
      (1000, Fetch GITHUB_PROMPTS_URL),
      (1250, ResponseJson),
      (1250, StorageSet [(CACHE_KEY, config_a1), (CACHE_TIMESTAMP_KEY, JNum 1000)])] \<and>
   storage (cached config_a1 1000 121100) =
     storage (snd (get (online 250 config_a1) (empty_cache 1000))) \<and>
   121100 - 1250 < CACHE_DURATION \<and>
   fetches offline (cached config_a1 1000 121100) \<noteq> 0"
proof -
  have a: "fetched_at (online 250 config_a1) (empty_cache 1000) config_a1 1000"
    by (rule fetched_at_online)
  have b: "storage (cached config_a1 1000 121100) =
      storage (snd (get (online 250 config_a1) (empty_cache 1000)))"
    by (rule storage_after_online)
  have c: "truthy (Some config_a1)" by (simp add: config_a1_def)
  from timestamp_is_sampled_before_fetch [OF a fetch_reply_online,
      of "cached config_a1 1000 121100" offline] a b c
  show ?thesis
    by (simp add: read_error_scenarios sampled_now_scenarios time_scenarios CACHE_DURATION_def
        online_def)
qed

end
